theory Spec2Isabelle
  imports Complex_Main "HOL-Library.Log_Nat"
begin

section \<open>The fee transform of \<^verbatim>\<open>prototype/outbound-inverse.py\<close>\<close>

text \<open>
  The prototype computes, for a channel pair with an outbound fee (rate, base) and an
  inbound fee (rate, base), the inbound amount that belongs to an outbound amount, and
  the inverse of that map. Its main block is a randomised test of the round trip.

  Number models. Fee parameters are Python integers (\<^typ>\<open>int\<close>). The coefficients and
  the amounts are Python floats in the source. The source is embedded twice:
  \<^item> in exact arithmetic: floats are rationals (\<^typ>\<open>rat\<close>) and \<open>+\<close>, \<open>-\<close>, \<open>*\<close>, \<open>/\<close>
    are the exact operations. This is the arithmetic the source writes down, read
    exactly, and the level at which the specification states the algebra of the
    transform (coefficients, floor, branches, monotonicity, exact round trip).
  \<^item> in binary64: every float operation rounds its exact result to the nearest
    double, ties to even, as CPython does on IEEE 754 hardware. The functions of this
    embedding carry the suffix \<open>_f64\<close>. It is used for what is about rounded results:
    the test \<open>round(amt_inv, 0) == amt_out\<close> of the main block, and the size of the
    inverse's result next to its argument.
  Python's \<open>/\<close> raises \<open>ZeroDivisionError\<close> on a zero divisor (for floats as for
  integers), and that is a branch of both embeddings.
\<close>

subsection \<open>Data\<close>

definition UNIT_M :: int where
  "UNIT_M = 1000000"

text \<open>The two attributes that \<open>__init__\<close> stores on a \<open>FeeStructure\<close> object.\<close>

record FeeStructure =
  m :: rat
  n :: rat

text \<open>
  What ends a computation early. \<open>ZeroDivisionError\<close> and \<open>OverflowError\<close> are the
  Python exceptions. \<open>NonFinite\<close> marks a float operation whose rounded result leaves
  the finite range of binary64: Python raises nothing there and continues with an
  infinity, which the binary64 embedding does not follow any further.
\<close>

datatype error = ZeroDivisionError | OverflowError | NonFinite

text \<open>A Python number: an \<open>int\<close> (unbounded) or a \<open>float\<close> (here: a finite double).\<close>

datatype number = PyInt int | PyFloat rat

text \<open>Python's true division \<open>a / b\<close>.\<close>

definition truediv :: "rat \<Rightarrow> rat \<Rightarrow> error + rat" where
  "truediv a b = (if b = 0 then Inl ZeroDivisionError else Inr (a / b))"

subsection \<open>Operations in exact arithmetic\<close>

text \<open>
  \<open>FeeStructure.__init__\<close>. The divisor \<open>UNIT_M\<close> is the non-zero constant above, so
  none of the three divisions raises and construction always succeeds.
\<close>

definition FeeStructure_init :: "int \<Rightarrow> int \<Rightarrow> int \<Rightarrow> int \<Rightarrow> FeeStructure" where
  "FeeStructure_init fee_rate_out base_out fee_rate_in base_in =
     \<lparr> m = 1 + (of_int fee_rate_out / of_int UNIT_M) * (1 + of_int fee_rate_in / of_int UNIT_M)
             + of_int fee_rate_in / of_int UNIT_M,
       n = of_int base_out * (1 + of_int fee_rate_in / of_int UNIT_M) + of_int base_in \<rparr>"

text \<open>\<open>FeeStructure.f\<close>: the inbound amount ignoring the floor by the outbound amount.\<close>

definition f :: "FeeStructure \<Rightarrow> rat \<Rightarrow> rat" where
  "f self x = m self * x + n self"

text \<open>\<open>FeeStructure.inbound_from_outbound\<close>.\<close>

definition inbound_from_outbound :: "FeeStructure \<Rightarrow> rat \<Rightarrow> rat" where
  "inbound_from_outbound self amount = max (f self amount) amount"

text \<open>\<open>FeeStructure.outbound_from_inbound\<close>: the division is only reached on the first branch.\<close>

definition outbound_from_inbound :: "FeeStructure \<Rightarrow> rat \<Rightarrow> error + rat" where
  "outbound_from_inbound self amount =
     (if f self amount > amount then truediv (amount - n self) (m self)
      else Inr amount)"

text \<open>
  The parameter ranges of the prototype's own test run (the four \<open>random.randint\<close> calls
  of the main block), which the specification calls the valid fee parameters.
\<close>

definition valid_params :: "int \<Rightarrow> int \<Rightarrow> int \<Rightarrow> int \<Rightarrow> bool" where
  "valid_params fee_rate_out base_out fee_rate_in base_in =
     (0 \<le> fee_rate_out \<and> fee_rate_out \<le> 10000 \<and>
      0 \<le> base_out \<and> base_out \<le> 2000 \<and>
      - 10000 \<le> fee_rate_in \<and> fee_rate_in \<le> 10000 \<and>
      - 2000 \<le> base_in \<and> base_in \<le> 2000)"

subsection \<open>Binary64 arithmetic\<close>

text \<open>
  A finite double is the rational it denotes. The two zeros of binary64 are one value
  here: the source only adds, subtracts, multiplies, divides and compares, a division
  by either zero raises, and the two zeros compare equal, so it cannot tell them apart.
\<close>

text \<open>
  The floor of the binary logarithm of a positive rational, computed from bit lengths
  (\<open>ilog2_bounds\<close> below shows that it is that).
\<close>

definition ilog2 :: "rat \<Rightarrow> int" where
  "ilog2 q = (if 1 \<le> q then bitlen \<lfloor>q\<rfloor> - 1 else - bitlen (\<lceil>1 / q\<rceil> - 1))"

text \<open>Rounding to the nearest integer, ties to the even one.\<close>

definition round_half_even :: "rat \<Rightarrow> int" where
  "round_half_even q =
     (let k = \<lfloor>q\<rfloor>; r = q - of_int k
      in if r < 1 / 2 then k else if 1 / 2 < r then k + 1 else if even k then k else k + 1)"

text \<open>
  The spacing of the doubles around \<open>q \<noteq> 0\<close>: 53 significant bits, and below the
  smallest normal binade (exponent \<open>-1022\<close>) the fixed spacing \<open>2^-1074\<close> of the
  subnormal numbers.
\<close>

definition ulp :: "rat \<Rightarrow> rat" where
  "ulp q = 2 powi (max (ilog2 \<bar>q\<bar>) (- 1022) - 52)"

text \<open>
  Rounding of an exact result to binary64 (round to nearest, ties to even), before the
  range check: the rounded value is finite in binary64 iff it is below \<open>2^1024\<close>.
\<close>

definition fl :: "rat \<Rightarrow> rat" where
  "fl q = (if q = 0 then 0 else of_int (round_half_even (q / ulp q)) * ulp q)"

definition finite64 :: "rat \<Rightarrow> bool" where
  "finite64 v = (\<bar>v\<bar> < 2 ^ 1024)"

text \<open>Sequencing: an error ends the computation.\<close>

definition bnd :: "error + 'a \<Rightarrow> ('a \<Rightarrow> error + 'b) \<Rightarrow> error + 'b" where
  "bnd r k = (case r of Inl e \<Rightarrow> Inl e | Inr v \<Rightarrow> k v)"

text \<open>The value of a number; Python compares an \<open>int\<close> and a \<open>float\<close> by their exact values.\<close>

fun val :: "number \<Rightarrow> rat" where
  "val (PyInt k) = of_int k"
| "val (PyFloat v) = v"

text \<open>
  The operand of a float operation: a \<open>float\<close> as it is, an \<open>int\<close> converted to the
  nearest double (\<open>OverflowError\<close> when that is out of range).
\<close>

fun as_float :: "number \<Rightarrow> error + rat" where
  "as_float (PyFloat v) = Inr v"
| "as_float (PyInt k) = (if finite64 (fl (of_int k)) then Inr (fl (of_int k)) else Inl OverflowError)"

text \<open>The result of a float operation whose exact result is \<open>q\<close>.\<close>

definition float_result :: "rat \<Rightarrow> error + rat" where
  "float_result q = (if finite64 (fl q) then Inr (fl q) else Inl NonFinite)"

definition fadd :: "rat \<Rightarrow> rat \<Rightarrow> error + rat" where
  "fadd a b = float_result (a + b)"

definition fsub :: "rat \<Rightarrow> rat \<Rightarrow> error + rat" where
  "fsub a b = float_result (a - b)"

definition fmul :: "rat \<Rightarrow> rat \<Rightarrow> error + rat" where
  "fmul a b = float_result (a * b)"

definition fdiv :: "rat \<Rightarrow> rat \<Rightarrow> error + rat" where
  "fdiv a b = (if b = 0 then Inl ZeroDivisionError else float_result (a / b))"

text \<open>
  \<open>a / b\<close> for two \<open>int\<close>s: the correctly rounded quotient, \<open>OverflowError\<close> when it is
  too large for a float.
\<close>

definition int_truediv :: "int \<Rightarrow> int \<Rightarrow> error + rat" where
  "int_truediv a b =
     (if b = 0 then Inl ZeroDivisionError
      else if finite64 (fl (of_int a / of_int b)) then Inr (fl (of_int a / of_int b))
      else Inl OverflowError)"

subsection \<open>Operations in binary64\<close>

text \<open>
  \<open>FeeStructure.__init__\<close>, one binder per operation in Python's order of evaluation:
  \<open>t1\<close> to \<open>t6\<close> and \<open>m'\<close> for the expression of \<open>self.m\<close>, then \<open>u1\<close> to \<open>u3\<close> and \<open>n'\<close>
  for \<open>self.n\<close> (\<open>b\<close> and \<open>c\<close> are the conversions of \<open>base_out\<close> and \<open>base_in\<close>).
\<close>

definition FeeStructure_init_f64 :: "int \<Rightarrow> int \<Rightarrow> int \<Rightarrow> int \<Rightarrow> error + FeeStructure" where
  "FeeStructure_init_f64 fee_rate_out base_out fee_rate_in base_in =
     bnd (int_truediv fee_rate_out UNIT_M) (\<lambda>t1.
     bnd (int_truediv fee_rate_in UNIT_M) (\<lambda>t2.
     bnd (fadd 1 t2) (\<lambda>t3.
     bnd (fmul t1 t3) (\<lambda>t4.
     bnd (fadd 1 t4) (\<lambda>t5.
     bnd (int_truediv fee_rate_in UNIT_M) (\<lambda>t6.
     bnd (fadd t5 t6) (\<lambda>m'.
     bnd (int_truediv fee_rate_in UNIT_M) (\<lambda>u1.
     bnd (fadd 1 u1) (\<lambda>u2.
     bnd (as_float (PyInt base_out)) (\<lambda>b.
     bnd (fmul b u2) (\<lambda>u3.
     bnd (as_float (PyInt base_in)) (\<lambda>c.
     bnd (fadd u3 c) (\<lambda>n'.
     Inr \<lparr> m = m', n = n' \<rparr>)))))))))))))"

text \<open>\<open>FeeStructure.f\<close>: \<open>self.m * x + self.n\<close>.\<close>

definition f_f64 :: "FeeStructure \<Rightarrow> number \<Rightarrow> error + rat" where
  "f_f64 self x =
     bnd (as_float x) (\<lambda>a.
     bnd (fmul (m self) a) (\<lambda>p.
     fadd p (n self)))"

text \<open>
  \<open>FeeStructure.inbound_from_outbound\<close>. Python's \<open>max(u, v)\<close> returns \<open>v\<close> when
  \<open>v > u\<close> and \<open>u\<close> otherwise, so the result is the amount object itself or the float.
\<close>

definition inbound_from_outbound_f64 :: "FeeStructure \<Rightarrow> number \<Rightarrow> error + number" where
  "inbound_from_outbound_f64 self amount =
     bnd (f_f64 self amount) (\<lambda>y.
     Inr (if val amount > y then amount else PyFloat y))"

text \<open>\<open>FeeStructure.outbound_from_inbound\<close>.\<close>

definition outbound_from_inbound_f64 :: "FeeStructure \<Rightarrow> number \<Rightarrow> error + number" where
  "outbound_from_inbound_f64 self amount =
     bnd (f_f64 self amount) (\<lambda>y.
     if y > val amount then
       bnd (as_float amount) (\<lambda>a.
       bnd (fsub a (n self)) (\<lambda>d.
       bnd (fdiv d (m self)) (\<lambda>r.
       Inr (PyFloat r))))
     else Inr amount)"

text \<open>
  \<open>round(x, 0)\<close>: an \<open>int\<close> is returned as it is, a float is rounded to the nearest
  integral float, ties to even.
\<close>

fun round0 :: "number \<Rightarrow> number" where
  "round0 (PyInt k) = PyInt k"
| "round0 (PyFloat v) = PyFloat (of_int (round_half_even v))"

text \<open>
  One test of the main block, for given fee parameters and outbound amount: construct
  the fee structure, go forward, go back, and compare the rounded result with the
  amount. \<open>Inr True\<close> is a passed test, \<open>Inr False\<close> is the source's \<open>test failed\<close>.
\<close>

definition round_trip_test :: "int \<Rightarrow> int \<Rightarrow> int \<Rightarrow> int \<Rightarrow> int \<Rightarrow> error + bool" where
  "round_trip_test fee_rate_out base_out fee_rate_in base_in amt_out =
     bnd (FeeStructure_init_f64 fee_rate_out base_out fee_rate_in base_in) (\<lambda>fee.
     bnd (inbound_from_outbound_f64 fee (PyInt amt_out)) (\<lambda>amt_in.
     bnd (outbound_from_inbound_f64 fee amt_in) (\<lambda>amt_inv.
     Inr (val (round0 amt_inv) = of_int amt_out))))"

section \<open>Properties in exact arithmetic\<close>

subsection \<open>The coefficients\<close>

lemma m_init:
  "m (FeeStructure_init fee_rate_out base_out fee_rate_in base_in) =
     (1 + of_int fee_rate_out / 1000000) * (1 + of_int fee_rate_in / 1000000)"
  by (simp add: FeeStructure_init_def UNIT_M_def algebra_simps)

lemma n_init:
  "n (FeeStructure_init fee_rate_out base_out fee_rate_in base_in) =
     of_int base_out * (1 + of_int fee_rate_in / 1000000) + of_int base_in"
  by (simp add: FeeStructure_init_def UNIT_M_def)

text \<open>
  The multiplier factors into the two legs' growth factors, so the test run's parameter
  ranges give a multiplier between \<open>0.99\<close> and \<open>1.0201\<close>, in particular a positive one.
\<close>

lemma valid_params_m_pos:
  assumes "valid_params fee_rate_out base_out fee_rate_in base_in"
  shows "0 < m (FeeStructure_init fee_rate_out base_out fee_rate_in base_in)"
proof -
  have "(0::rat) < 1 + of_int fee_rate_out / 1000000"
    using assms by (simp add: valid_params_def field_simps)
  moreover have "(0::rat) < 1 + of_int fee_rate_in / 1000000"
    using assms by (simp add: valid_params_def field_simps)
  ultimately show ?thesis
    by (simp add: m_init)
qed

text \<open>
  C3. For every four fee parameters, construction sets the multiplier \<open>m\<close> to
  \<open>1 + (fee_rate_out/1e6) * (1 + fee_rate_in/1e6) + fee_rate_in/1e6\<close> and the offset \<open>n\<close> to
  \<open>base_out * (1 + fee_rate_in/1e6) + base_in\<close>.
\<close>

theorem init_coefficients:
  "m (FeeStructure_init fee_rate_out base_out fee_rate_in base_in) =
     1 + (of_int fee_rate_out / 1000000) * (1 + of_int fee_rate_in / 1000000)
       + of_int fee_rate_in / 1000000
   \<and> n (FeeStructure_init fee_rate_out base_out fee_rate_in base_in) =
     of_int base_out * (1 + of_int fee_rate_in / 1000000) + of_int base_in"
  by (simp add: FeeStructure_init_def UNIT_M_def)

subsection \<open>The forward transform\<close>

text \<open>
  C4. For every constructed transform and every amount (non-negative or not),
  \<open>inbound_from_outbound(amount)\<close> is \<open>max(m * amount + n, amount)\<close>: the uncapped linear
  value, floored at the outbound amount.
\<close>

theorem inbound_from_outbound_max:
  "inbound_from_outbound self amount = max (m self * amount + n self) amount"
  by (simp add: inbound_from_outbound_def f_def)

text \<open>
  C6. For every transform, in particular every one constructed from four fee parameters,
  and every amount, \<open>inbound_from_outbound(amount) \<ge> amount\<close>.
\<close>

theorem inbound_from_outbound_floor:
  "amount \<le> inbound_from_outbound self amount"
  by (simp add: inbound_from_outbound_def)

text \<open>
  Applying the uncapped map twice: the gap to the argument is scaled by the multiplier.
  With a positive multiplier the sign of the gap is kept, which is why the inverse can
  test the inbound amount where the forward direction tested the outbound amount.
\<close>

lemma f_f: "f self (f self x) - f self x = m self * (f self x - x)"
  by (simp add: f_def algebra_simps)

text \<open>
  C8, as stated (monotone for every constructed transform), fails: a fee rate below
  \<open>-1000000\<close> ppm makes the multiplier negative. With parameters \<open>(0, 0, -2000000, 100)\<close>
  the multiplier is \<open>-1\<close>, and the amounts \<open>0 \<le> 10\<close> are mapped to \<open>100 > 90\<close>.
\<close>

theorem inbound_mono_counterexample:
  "inbound_from_outbound (FeeStructure_init 0 0 (- 2000000) 100) 0 = 100
   \<and> inbound_from_outbound (FeeStructure_init 0 0 (- 2000000) 100) 10 = 90
   \<and> (0::rat) \<le> 10 \<and> \<not> (100::rat) \<le> 90"
  by (simp add: inbound_from_outbound_def f_def FeeStructure_init_def UNIT_M_def)

text \<open>
  C8, amended. For every transform whose multiplier \<open>m\<close> is not negative (every transform
  of the valid parameter ranges is one) and all amounts \<open>a \<le> b\<close>,
  \<open>inbound_from_outbound(a) \<le> inbound_from_outbound(b)\<close>.
\<close>

theorem inbound_from_outbound_mono:
  assumes "0 \<le> m self" and "a \<le> b"
  shows "inbound_from_outbound self a \<le> inbound_from_outbound self b"
proof -
  have "f self a \<le> f self b"
    using assms by (simp add: f_def mult_left_mono)
  with assms(2) show ?thesis
    by (auto simp: inbound_from_outbound_def max_def)
qed

theorem inbound_from_outbound_mono_witness:
  "0 \<le> m (FeeStructure_init 0 0 (- 10000) (- 2000)) \<and> (10::rat) \<le> 1000000
   \<and> inbound_from_outbound (FeeStructure_init 0 0 (- 10000) (- 2000)) 10
     \<le> inbound_from_outbound (FeeStructure_init 0 0 (- 10000) (- 2000)) 1000000"
  using inbound_from_outbound_mono [of "FeeStructure_init 0 0 (- 10000) (- 2000)" 10 1000000]
  by (simp add: FeeStructure_init_def UNIT_M_def)

subsection \<open>The inverse transform\<close>

text \<open>
  C5. For every transform and every inbound amount, \<open>outbound_from_inbound(amount)\<close> is
  the quotient \<open>(amount - n) / m\<close> when \<open>m * amount + n > amount\<close>, and the amount itself
  otherwise. The quotient is Python's: \<^const>\<open>truediv\<close> raises on a zero divisor.
\<close>

theorem outbound_from_inbound_branches:
  "outbound_from_inbound self amount =
     (if m self * amount + n self > amount then truediv (amount - n self) (m self)
      else Inr amount)"
  by (simp add: outbound_from_inbound_def f_def)

text \<open>
  C7, as stated (the inverse never exceeds its argument, for every constructed
  transform), fails: with parameters \<open>(0, 0, -2000000, 100)\<close> the multiplier is \<open>-1\<close>,
  the inbound amount \<open>0\<close> is on the linear branch and the result is \<open>100\<close>.
\<close>

theorem outbound_le_counterexample:
  "outbound_from_inbound (FeeStructure_init 0 0 (- 2000000) 100) 0 = Inr 100
   \<and> (0::rat) \<le> 0 \<and> \<not> (100::rat) \<le> 0"
  by (simp add: outbound_from_inbound_def truediv_def f_def FeeStructure_init_def UNIT_M_def)

text \<open>
  C7, amended. \<open>outbound_from_inbound(amount)\<close> returns a value that is at most the
  amount exactly when the multiplier \<open>m\<close> is positive or the amount is off the linear
  branch (\<open>m * amount + n \<le> amount\<close>). So the bound holds for every transform with a
  positive multiplier, at every amount.
\<close>

theorem outbound_le_iff:
  "(\<exists>r. outbound_from_inbound self amount = Inr r \<and> r \<le> amount) \<longleftrightarrow>
     (0 < m self \<or> f self amount \<le> amount)"
proof (cases "f self amount > amount")
  case False
  then show ?thesis by (simp add: outbound_from_inbound_def)
next
  case True
  consider "m self < 0" | "m self = 0" | "0 < m self" by linarith
  then show ?thesis
  proof cases
    case 1
    have "amount < (amount - n self) / m self"
      using 1 True by (simp add: f_def field_simps)
    with 1 True show ?thesis
      by (simp add: outbound_from_inbound_def truediv_def)
  next
    case 2
    with True show ?thesis
      by (simp add: outbound_from_inbound_def truediv_def)
  next
    case 3
    have "(amount - n self) / m self \<le> amount"
      using 3 True by (simp add: f_def field_simps)
    with 3 True show ?thesis
      by (simp add: outbound_from_inbound_def truediv_def)
  qed
qed

theorem outbound_le_iff_witness:
  "0 < m (FeeStructure_init 10000 2000 0 0)
   \<and> outbound_from_inbound (FeeStructure_init 10000 2000 0 0) 3010 = Inr 1000
   \<and> (1000::rat) \<le> 3010"
  using outbound_le_iff [of "FeeStructure_init 10000 2000 0 0" 3010]
  by (simp add: outbound_from_inbound_def truediv_def f_def FeeStructure_init_def UNIT_M_def)

text \<open>
  C9, as stated (a zero multiplier makes the inverse fail at every non-negative amount),
  fails: the division is only reached on the linear branch. With parameters
  \<open>(0, 0, -1000000, 0)\<close> both coefficients are \<open>0\<close>, and the inbound amount \<open>5\<close> is
  returned unchanged.
\<close>

theorem outbound_m_zero_counterexample:
  "m (FeeStructure_init 0 0 (- 1000000) 0) = 0 \<and> (0::rat) \<le> 5
   \<and> outbound_from_inbound (FeeStructure_init 0 0 (- 1000000) 0) 5 = Inr 5"
  by (simp add: outbound_from_inbound_def f_def FeeStructure_init_def UNIT_M_def)

text \<open>
  C9, amended. For every transform whose multiplier \<open>m\<close> is zero, \<open>outbound_from_inbound\<close>
  fails with \<open>ZeroDivisionError\<close> at the amounts below the offset \<open>n\<close>, and returns the
  amount unchanged at every other amount. It never returns anything else.
\<close>

theorem outbound_from_inbound_m_zero:
  assumes "m self = 0"
  shows "outbound_from_inbound self amount =
           (if n self > amount then Inl ZeroDivisionError else Inr amount)"
  using assms by (simp add: outbound_from_inbound_def f_def truediv_def)

theorem outbound_from_inbound_m_zero_witness:
  "m (FeeStructure_init 0 0 (- 1000000) 7) = 0
   \<and> outbound_from_inbound (FeeStructure_init 0 0 (- 1000000) 7) 3 = Inl ZeroDivisionError
   \<and> outbound_from_inbound (FeeStructure_init 0 0 (- 1000000) 7) 7 = Inr 7"
  using outbound_from_inbound_m_zero [of "FeeStructure_init 0 0 (- 1000000) 7" 3]
    outbound_from_inbound_m_zero [of "FeeStructure_init 0 0 (- 1000000) 7" 7]
  by (simp add: FeeStructure_init_def UNIT_M_def)

text \<open>
  C10. There are valid fee parameters and a non-negative inbound amount at which
  \<open>outbound_from_inbound\<close> returns a negative value: with an outbound base fee
  \<open>0 < base_out \<le> 2000\<close> and the three other parameters zero (\<open>m = 1\<close>, \<open>n = base_out\<close>),
  every amount \<open>0 \<le> amount < base_out\<close> is mapped to \<open>amount - base_out < 0\<close>. The
  inverse has no floor at zero.
\<close>

theorem outbound_from_inbound_negative:
  assumes "0 < base_out" and "base_out \<le> 2000" and "0 \<le> amount" and "amount < of_int base_out"
  shows "valid_params 0 base_out 0 0
       \<and> outbound_from_inbound (FeeStructure_init 0 base_out 0 0) amount = Inr (amount - of_int base_out)
       \<and> amount - of_int base_out < 0"
  using assms
  by (simp add: valid_params_def outbound_from_inbound_def f_def truediv_def FeeStructure_init_def UNIT_M_def)

theorem outbound_from_inbound_negative_witness:
  "valid_params 0 1 0 0 \<and> (0::rat) \<le> 0
   \<and> outbound_from_inbound (FeeStructure_init 0 1 0 0) 0 = Inr (- 1) \<and> (- 1 :: rat) < 0"
  using outbound_from_inbound_negative [of 1 0]
  by simp

subsection \<open>The round trip in exact arithmetic\<close>

text \<open>
  C2. For every transform with a positive multiplier \<open>m\<close> and every amount \<open>x\<close>: the
  inverse's test \<open>f(amount) > amount\<close>, made at the inbound amount
  \<open>inbound_from_outbound(x)\<close>, selects the linear branch exactly when the forward floor
  was not active at \<open>x\<close> (\<open>f(x) > x\<close>), and
  \<open>outbound_from_inbound(inbound_from_outbound(x))\<close> returns \<open>x\<close> itself.
\<close>

theorem round_trip_exact:
  assumes "0 < m self"
  shows "(f self (inbound_from_outbound self x) > inbound_from_outbound self x \<longleftrightarrow> f self x > x)
       \<and> outbound_from_inbound self (inbound_from_outbound self x) = Inr x"
proof (cases "f self x > x")
  case True
  then have y: "inbound_from_outbound self x = f self x"
    by (simp add: inbound_from_outbound_def)
  have "0 < m self * (f self x - x)"
    using assms True by simp
  then have lin: "f self (f self x) > f self x"
    using f_f [of self x] by simp
  have "(f self x - n self) / m self = x"
    using assms by (simp add: f_def)
  with lin y True assms show ?thesis
    by (simp add: outbound_from_inbound_def truediv_def)
next
  case False
  then have y: "inbound_from_outbound self x = x"
    by (simp add: inbound_from_outbound_def)
  with False show ?thesis
    by (simp add: outbound_from_inbound_def)
qed

theorem round_trip_exact_witness:
  "0 < m (FeeStructure_init 1000 1 0 0)
   \<and> inbound_from_outbound (FeeStructure_init 1000 1 0 0) 1000000 = 1001001
   \<and> outbound_from_inbound (FeeStructure_init 1000 1 0 0) 1001001 = Inr 1000000"
  using round_trip_exact [of "FeeStructure_init 1000 1 0 0" 1000000]
  by (simp add: FeeStructure_init_def UNIT_M_def inbound_from_outbound_def f_def)

section \<open>Properties in binary64\<close>

lemma bnd_Inr [simp]: "bnd (Inr v) k = k v"
  by (simp add: bnd_def)

lemma bnd_Inl [simp]: "bnd (Inl e) k = Inl e"
  by (simp add: bnd_def)

subsection \<open>Rounding\<close>

text \<open>Rounding to the nearest integer moves a number by at most one half.\<close>

lemma round_half_even_error: "\<bar>of_int (round_half_even q) - q\<bar> \<le> 1 / 2"
proof -
  have "of_int \<lfloor>q\<rfloor> \<le> q" and "q < of_int \<lfloor>q\<rfloor> + 1"
    by linarith+
  then show ?thesis
    by (auto simp: round_half_even_def Let_def)
qed

lemma round_half_even_near:
  assumes "\<bar>v - of_int k\<bar> < 1 / 2"
  shows "round_half_even v = k"
proof -
  have "\<bar>(of_int (round_half_even v) :: rat) - of_int k\<bar> < 1"
    using round_half_even_error [of v] assms by linarith
  then have "\<bar>(of_int (round_half_even v - k) :: rat)\<bar> < 1"
    by simp
  then have "\<bar>round_half_even v - k\<bar> < 1"
    by (metis of_int_abs of_int_less_1_iff)
  then show ?thesis by linarith
qed

text \<open>
  \<^const>\<open>ilog2\<close> is the floor of the binary logarithm: \<open>2^(ilog2 q) \<le> q < 2^(ilog2 q + 1)\<close>.
\<close>

lemma ilog2_ge_one:
  assumes "1 \<le> q"
  shows "2 powi (ilog2 q) \<le> q" and "q < 2 powi (ilog2 q + 1)"
proof -
  let ?k = "\<lfloor>q\<rfloor>"
  have k: "0 < ?k" using assms by linarith
  have len: "1 \<le> bitlen ?k"
    using k bitlen_eq_zero_iff [of ?k] bitlen_nonneg [of ?k] by linarith
  have lo: "(2::int) ^ nat (bitlen ?k - 1) \<le> ?k" and hi: "?k < 2 ^ nat (bitlen ?k)"
    using bitlen_bounds [OF k] by simp_all
  have "(2::rat) powi (bitlen ?k - 1) = of_int (2 ^ nat (bitlen ?k - 1))"
    using len by (simp add: power_int_def)
  also have "\<dots> \<le> of_int ?k"
    using lo by (simp only: of_int_le_iff)
  also have "\<dots> \<le> q" by linarith
  finally show "2 powi (ilog2 q) \<le> q"
    using assms by (simp add: ilog2_def)
  have "q < of_int (?k + 1)" by linarith
  also have "\<dots> \<le> of_int (2 ^ nat (bitlen ?k))"
  proof -
    have "?k + 1 \<le> 2 ^ nat (bitlen ?k)" using hi by linarith
    then show ?thesis by (simp only: of_int_le_iff)
  qed
  also have "\<dots> = (2::rat) powi (bitlen ?k)"
    using len by (simp add: power_int_def)
  finally show "q < 2 powi (ilog2 q + 1)"
    using assms by (simp add: ilog2_def)
qed

lemma ilog2_lt_one:
  assumes "0 < q" and "q < 1"
  shows "2 powi (ilog2 q) \<le> q" and "q < 2 powi (ilog2 q + 1)"
proof -
  let ?t = "\<lceil>1 / q\<rceil> - 1"
  have r: "1 < 1 / q" using assms by simp
  then have t: "0 < ?t" by linarith
  have len: "1 \<le> bitlen ?t"
    using t bitlen_eq_zero_iff [of ?t] bitlen_nonneg [of ?t] by linarith
  have lo: "(2::int) ^ nat (bitlen ?t - 1) \<le> ?t" and hi: "?t < 2 ^ nat (bitlen ?t)"
    using bitlen_bounds [OF t] by simp_all
  have e: "ilog2 q = - bitlen ?t"
    using assms by (simp add: ilog2_def)
  have "1 / q \<le> of_int (?t + 1)" by (simp add: le_of_int_ceiling)
  also have "\<dots> \<le> of_int (2 ^ nat (bitlen ?t))"
  proof -
    have "?t + 1 \<le> 2 ^ nat (bitlen ?t)" using hi by linarith
    then show ?thesis by (simp only: of_int_le_iff)
  qed
  finally have "1 / q \<le> 2 ^ nat (bitlen ?t)" by simp
  then have "1 / 2 ^ nat (bitlen ?t) \<le> q"
    using assms(1) by (simp add: field_simps)
  moreover have "(2::rat) powi (- bitlen ?t) = 1 / 2 ^ nat (bitlen ?t)"
    using len by (simp add: power_int_def power_one_over)
  ultimately show "2 powi (ilog2 q) \<le> q"
    by (simp add: e)
  have "(of_int (2 ^ nat (bitlen ?t - 1)) :: rat) \<le> of_int ?t"
    using lo by (simp only: of_int_le_iff)
  also have "\<dots> < 1 / q" by linarith
  finally have "2 ^ nat (bitlen ?t - 1) < 1 / q" by simp
  then have "q < 1 / 2 ^ nat (bitlen ?t - 1)"
    using assms(1) by (simp add: field_simps)
  moreover have "(2::rat) powi (- bitlen ?t + 1) = 1 / 2 ^ nat (bitlen ?t - 1)"
  proof (cases "bitlen ?t = 1")
    case True
    then show ?thesis by simp
  next
    case False
    with len have "- bitlen ?t + 1 < 0" by linarith
    moreover have "nat (- (- bitlen ?t + 1)) = nat (bitlen ?t - 1)" by simp
    ultimately show ?thesis
      by (simp add: power_int_def power_one_over)
  qed
  ultimately show "q < 2 powi (ilog2 q + 1)"
    by (simp add: e)
qed

lemma ilog2_bounds:
  assumes "0 < q"
  shows "2 powi (ilog2 q) \<le> q" and "q < 2 powi (ilog2 q + 1)"
  using assms ilog2_ge_one [of q] ilog2_lt_one [of q] by (cases "1 \<le> q"; simp)+


text \<open>
  The error of one rounding: at most half a unit in the last place, so at most
  \<open>2^(k-53)\<close> for a number of magnitude at most \<open>2^k\<close> (subnormal numbers included, as
  long as \<open>k \<ge> -1022\<close>).
\<close>

lemma ulp_pos: "0 < ulp q"
  by (simp add: ulp_def)

lemma ulp_le:
  assumes "q \<noteq> 0" and "\<bar>q\<bar> \<le> 2 powi k" and "- 1022 \<le> k"
  shows "ulp q \<le> 2 powi (k - 52)"
proof -
  have "2 powi (ilog2 \<bar>q\<bar>) \<le> \<bar>q\<bar>"
    using assms(1) by (intro ilog2_bounds) simp
  with assms(2) have le: "(2::rat) powi (ilog2 \<bar>q\<bar>) \<le> 2 powi k"
    by linarith
  have "ilog2 \<bar>q\<bar> \<le> k"
  proof (rule ccontr)
    assume "\<not> ilog2 \<bar>q\<bar> \<le> k"
    then have "(2::rat) powi k < 2 powi (ilog2 \<bar>q\<bar>)"
      by (intro power_int_strict_increasing) simp_all
    with le show False by linarith
  qed
  with assms(3) have "max (ilog2 \<bar>q\<bar>) (- 1022) - 52 \<le> k - 52"
    by simp
  then show ?thesis
    unfolding ulp_def by (intro power_int_increasing) simp_all
qed

lemma fl_error:
  assumes "\<bar>q\<bar> \<le> 2 powi k" and "- 1022 \<le> k"
  shows "\<bar>fl q - q\<bar> \<le> 2 powi (k - 53)"
proof (cases "q = 0")
  case True
  then show ?thesis by (simp add: fl_def)
next
  case False
  let ?u = "ulp q"
  have u: "0 < ?u" by (rule ulp_pos)
  have "fl q - q = (of_int (round_half_even (q / ?u)) - q / ?u) * ?u"
    using False u by (simp add: fl_def field_simps)
  then have "\<bar>fl q - q\<bar> = \<bar>of_int (round_half_even (q / ?u)) - q / ?u\<bar> * ?u"
    using u by (simp add: abs_mult)
  also have "\<dots> \<le> (1 / 2) * ?u"
    using u round_half_even_error [of "q / ?u"] by (intro mult_right_mono) simp_all
  also have "\<dots> \<le> (1 / 2) * 2 powi (k - 52)"
    using ulp_le [OF False assms] by simp
  also have "\<dots> = 2 powi (k - 53)"
    using power_int_add_1 [of "2::rat" "k - 53"] by simp
  finally show ?thesis .
qed

lemma fl_error_49:
  assumes "\<bar>q\<bar> \<le> 562949953421312"
  shows "\<bar>fl q - q\<bar> \<le> 1 / 16"
  using fl_error [of q 49] assms by simp

lemma fl_error_12:
  assumes "\<bar>q\<bar> \<le> 4096"
  shows "\<bar>fl q - q\<bar> \<le> 1 / 1000000"
proof -
  have "\<bar>fl q - q\<bar> \<le> 2 powi (12 - 53)"
    using fl_error [of q 12] assms by simp
  also have "\<dots> \<le> 1 / 1000000" by simp
  finally show ?thesis .
qed

text \<open>No overflow for results of moderate size.\<close>

lemma finite64_small:
  assumes "\<bar>v\<bar> \<le> 18446744073709551616"
  shows "finite64 v"
proof -
  have "(18446744073709551616::rat) < 2 ^ 65" by simp
  also have "\<dots> \<le> 2 ^ 1024"
    by (rule power_increasing) simp_all
  finally show ?thesis
    using assms unfolding finite64_def by linarith
qed

lemma float_result_49:
  assumes "\<bar>q\<bar> \<le> 562949953421312"
  shows "float_result q = Inr (fl q)"
proof -
  have "\<bar>fl q\<bar> \<le> 18446744073709551616"
    using fl_error_49 [OF assms] assms by linarith
  then show ?thesis
    by (simp add: float_result_def finite64_small)
qed

subsection \<open>Some doubles\<close>

text \<open>
  The rounding at concrete numbers: the double nearest to \<open>1/10\<close>, and the integers just
  above \<open>2^53\<close>, where the doubles are the even integers and an odd integer is a tie.
\<close>

lemma fl_0: "fl 0 = 0"
  by (simp add: fl_def)

lemma fl_1: "fl 1 = 1"
  by code_simp

lemma fl_tie_up: "fl 9007199254740995 = 9007199254740996"
  by code_simp

lemma fl_tie_down: "fl 9007199254740993 = 9007199254740992"
  by code_simp

lemma fl_fixed: "fl 9007199254740996 = 9007199254740996"
  by code_simp

lemma fl_tenth: "fl (1 / 10) = 3602879701896397 / 36028797018963968"
  by code_simp

text \<open>An integer is its own rounding.\<close>

lemma round_half_even_of_int: "round_half_even (of_int k) = k"
  by (simp add: round_half_even_def)

lemma round_half_even_big: "round_half_even 9007199254740996 = 9007199254740996"
  using round_half_even_of_int [of 9007199254740996] by simp

text \<open>The zero fee structure, and the uncapped map at \<open>2^53 + 3\<close> and at its double.\<close>

lemma init_zero: "FeeStructure_init_f64 0 0 0 0 = Inr \<lparr> m = 1, n = 0 \<rparr>"
  by (simp add: FeeStructure_init_f64_def int_truediv_def UNIT_M_def fadd_def fmul_def
      float_result_def fl_0 fl_1 finite64_small)

lemma f_f64_big:
  "f_f64 \<lparr> m = 1, n = 0 \<rparr> (PyInt 9007199254740995) = Inr 9007199254740996"
  "f_f64 \<lparr> m = 1, n = 0 \<rparr> (PyFloat 9007199254740996) = Inr 9007199254740996"
  by (simp_all add: f_f64_def fadd_def fmul_def float_result_def fl_tie_up fl_fixed finite64_small)

subsection \<open>The coefficients of the valid parameter ranges\<close>

lemma abs_mult_bound:
  fixes a b :: rat
  assumes "\<bar>a\<bar> \<le> A" and "\<bar>b\<bar> \<le> B"
  shows "\<bar>a * b\<bar> \<le> A * B"
  unfolding abs_mult using assms by (intro mult_mono) simp_all

lemma float_result_12:
  assumes "\<bar>q\<bar> \<le> 4096"
  shows "float_result q = Inr (fl q)" and "\<bar>fl q - q\<bar> \<le> 1 / 1000000"
  using assms float_result_49 [of q] fl_error_12 [of q] by simp_all

lemma int_truediv_UNIT_M:
  assumes "\<bar>a\<bar> \<le> 10000"
  shows "int_truediv a UNIT_M = Inr (fl (of_int a / 1000000))"
    and "\<bar>fl (of_int a / 1000000)\<bar> \<le> 11 / 1000"
proof -
  let ?q = "of_int a / 1000000 :: rat"
  have "\<bar>(of_int a :: rat)\<bar> \<le> 10000"
    using assms by (metis of_int_abs of_int_le_iff of_int_numeral)
  then have q: "\<bar>?q\<bar> \<le> 1 / 100"
    by simp
  then have small: "\<bar>?q\<bar> \<le> 4096" by linarith
  have "float_result ?q = Inr (fl ?q)"
    by (rule float_result_12 [OF small])
  then have "finite64 (fl ?q)"
    by (simp add: float_result_def split: if_splits)
  then show "int_truediv a UNIT_M = Inr (fl ?q)"
    by (simp add: int_truediv_def UNIT_M_def)
  show "\<bar>fl ?q\<bar> \<le> 11 / 1000"
    using float_result_12(2) [OF small] q by linarith
qed

lemma as_float_small:
  assumes "\<bar>k\<bar> \<le> 2000"
  shows "as_float (PyInt k) = Inr (fl (of_int k))" and "\<bar>fl (of_int k)\<bar> \<le> 2001"
proof -
  let ?q = "of_int k :: rat"
  have q: "\<bar>?q\<bar> \<le> 2000"
    using assms by (metis of_int_abs of_int_le_iff of_int_numeral)
  then have small: "\<bar>?q\<bar> \<le> 4096" by linarith
  have "float_result ?q = Inr (fl ?q)"
    by (rule float_result_12 [OF small])
  then have "finite64 (fl ?q)"
    by (simp add: float_result_def split: if_splits)
  then show "as_float (PyInt k) = Inr (fl ?q)"
    by simp
  show "\<bar>fl ?q\<bar> \<le> 2001"
    using float_result_12(2) [OF small] q by linarith
qed

text \<open>
  For valid parameters construction succeeds, and the rounded coefficients stay near the
  exact ones: the multiplier within \<open>[0.97, 1.03]\<close>, the offset within \<open>[-4100, 4100]\<close>.
\<close>

lemma FeeStructure_init_f64_bounds:
  assumes "valid_params fee_rate_out base_out fee_rate_in base_in"
  shows "\<exists>fee. FeeStructure_init_f64 fee_rate_out base_out fee_rate_in base_in = Inr fee
           \<and> 97 / 100 \<le> m fee \<and> m fee \<le> 103 / 100 \<and> \<bar>n fee\<bar> \<le> 4100"
proof -
  define t1 where "t1 = fl (of_int fee_rate_out / 1000000)"
  define t2 where "t2 = fl (of_int fee_rate_in / 1000000)"
  define t3 where "t3 = fl (1 + t2)"
  define t4 where "t4 = fl (t1 * t3)"
  define t5 where "t5 = fl (1 + t4)"
  define mm where "mm = fl (t5 + t2)"
  define b where "b = fl (of_int base_out)"
  define u3 where "u3 = fl (b * t3)"
  define c where "c = fl (of_int base_in)"
  define nn where "nn = fl (u3 + c)"
  have ro: "\<bar>fee_rate_out\<bar> \<le> 10000" and ri: "\<bar>fee_rate_in\<bar> \<le> 10000"
    and bo: "\<bar>base_out\<bar> \<le> 2000" and bi: "\<bar>base_in\<bar> \<le> 2000"
    using assms by (auto simp: valid_params_def)
  have e1: "int_truediv fee_rate_out UNIT_M = Inr t1" and b1: "\<bar>t1\<bar> \<le> 11 / 1000"
    unfolding t1_def by (rule int_truediv_UNIT_M [OF ro])+
  have e2: "int_truediv fee_rate_in UNIT_M = Inr t2" and b2: "\<bar>t2\<bar> \<le> 11 / 1000"
    unfolding t2_def by (rule int_truediv_UNIT_M [OF ri])+
  have s3: "\<bar>1 + t2\<bar> \<le> 4096" using b2 by linarith
  have e3: "fadd 1 t2 = Inr t3"
    unfolding fadd_def t3_def by (rule float_result_12 [OF s3])
  have b3: "\<bar>t3 - 1\<bar> \<le> 12 / 1000"
    using float_result_12(2) [OF s3] b2 unfolding t3_def by linarith
  have p4: "\<bar>t1 * t3\<bar> \<le> (11 / 1000) * (1012 / 1000)"
    using b1 b3 by (intro abs_mult_bound) linarith+
  then have s4: "\<bar>t1 * t3\<bar> \<le> 4096" by linarith
  have e4: "fmul t1 t3 = Inr t4"
    unfolding fmul_def t4_def by (rule float_result_12 [OF s4])
  have b4: "\<bar>t4\<bar> \<le> 12 / 1000"
    using float_result_12(2) [OF s4] p4 unfolding t4_def by linarith
  have s5: "\<bar>1 + t4\<bar> \<le> 4096" using b4 by linarith
  have e5: "fadd 1 t4 = Inr t5"
    unfolding fadd_def t5_def by (rule float_result_12 [OF s5])
  have b5: "\<bar>t5 - 1\<bar> \<le> 13 / 1000"
    using float_result_12(2) [OF s5] b4 unfolding t5_def by linarith
  have s6: "\<bar>t5 + t2\<bar> \<le> 4096" using b5 b2 by linarith
  have e6: "fadd t5 t2 = Inr mm"
    unfolding fadd_def mm_def by (rule float_result_12 [OF s6])
  have b6: "\<bar>mm - 1\<bar> \<le> 25 / 1000"
    using float_result_12(2) [OF s6] b5 b2 unfolding mm_def by linarith
  have e7: "as_float (PyInt base_out) = Inr b" and b7: "\<bar>b\<bar> \<le> 2001"
    unfolding b_def by (rule as_float_small [OF bo])+
  have p8: "\<bar>b * t3\<bar> \<le> 2001 * (1012 / 1000)"
    using b7 b3 by (intro abs_mult_bound) linarith+
  then have s8: "\<bar>b * t3\<bar> \<le> 4096" by linarith
  have e8: "fmul b t3 = Inr u3"
    unfolding fmul_def u3_def by (rule float_result_12 [OF s8])
  have b8: "\<bar>u3\<bar> \<le> 2027"
    using float_result_12(2) [OF s8] p8 unfolding u3_def by linarith
  have e9: "as_float (PyInt base_in) = Inr c" and b9: "\<bar>c\<bar> \<le> 2001"
    unfolding c_def by (rule as_float_small [OF bi])+
  have s10: "\<bar>u3 + c\<bar> \<le> 4096" using b8 b9 by linarith
  have e10: "fadd u3 c = Inr nn"
    unfolding fadd_def nn_def by (rule float_result_12 [OF s10])
  have b10: "\<bar>nn\<bar> \<le> 4100"
    using float_result_12(2) [OF s10] b8 b9 unfolding nn_def by linarith
  have "FeeStructure_init_f64 fee_rate_out base_out fee_rate_in base_in = Inr \<lparr> m = mm, n = nn \<rparr>"
    by (simp add: FeeStructure_init_f64_def e1 e2 e3 e4 e5 e6 e7 e8 e9 e10 del: as_float.simps)
  moreover have "97 / 100 \<le> mm" and "mm \<le> 103 / 100"
    using b6 by linarith+
  ultimately show ?thesis
    using b10 by simp
qed

subsection \<open>The round trip test\<close>

text \<open>
  The uncapped map at an operand of magnitude at most \<open>5.2 * 10^14\<close>: no overflow, and
  the two roundings move the result by at most \<open>1/8\<close>.
\<close>

lemma f_f64_ok:
  assumes M: "97 / 100 \<le> m self" "m self \<le> 103 / 100" and N: "\<bar>n self\<bar> \<le> 4100"
    and a: "as_float amount = Inr a" "\<bar>a\<bar> \<le> 520000000000000"
  shows "f_f64 self amount = Inr (fl (fl (m self * a) + n self))"
    and "\<bar>fl (fl (m self * a) + n self) - (m self * a + n self)\<bar> \<le> 1 / 8"
proof -
  have "\<bar>m self\<bar> \<le> 103 / 100" using M by linarith
  then have "\<bar>m self * a\<bar> \<le> (103 / 100) * 520000000000000"
    using a(2) by (rule abs_mult_bound)
  then have s1: "\<bar>m self * a\<bar> \<le> 562949953421312" and p1: "\<bar>m self * a\<bar> \<le> 535600000000000"
    by linarith+
  have e1: "fmul (m self) a = Inr (fl (m self * a))"
    unfolding fmul_def by (rule float_result_49 [OF s1])
  have b1: "\<bar>fl (m self * a) - m self * a\<bar> \<le> 1 / 16"
    by (rule fl_error_49 [OF s1])
  have s2: "\<bar>fl (m self * a) + n self\<bar> \<le> 562949953421312"
    using b1 p1 N by linarith
  have e2: "fadd (fl (m self * a)) (n self) = Inr (fl (fl (m self * a) + n self))"
    unfolding fadd_def by (rule float_result_49 [OF s2])
  show "f_f64 self amount = Inr (fl (fl (m self * a) + n self))"
    by (simp add: f_f64_def a(1) e1 e2)
  show "\<bar>fl (fl (m self * a) + n self) - (m self * a + n self)\<bar> \<le> 1 / 8"
    using fl_error_49 [OF s2] b1 by linarith
qed

lemma as_float_amount:
  assumes "0 \<le> x" and "x \<le> 500000000000000"
  shows "as_float (PyInt x) = Inr (fl (of_int x))"
    and "\<bar>fl (of_int x) - of_int x\<bar> \<le> 1 / 16"
proof -
  let ?q = "of_int x :: rat"
  have "0 \<le> ?q" using assms(1) by simp
  moreover have "?q \<le> 500000000000000"
    using assms(2) by (metis of_int_le_iff of_int_numeral)
  ultimately have s: "\<bar>?q\<bar> \<le> 562949953421312" by linarith
  have "float_result ?q = Inr (fl ?q)"
    by (rule float_result_49 [OF s])
  then have "finite64 (fl ?q)"
    by (simp add: float_result_def split: if_splits)
  then show "as_float (PyInt x) = Inr (fl ?q)" by simp
  show "\<bar>fl ?q - ?q\<bar> \<le> 1 / 16"
    by (rule fl_error_49 [OF s])
qed

text \<open>
  C1, as stated (for all valid fee parameters and every non-negative integer outbound
  amount \<open>x\<close>, \<open>round(outbound_from_inbound(inbound_from_outbound(x)))\<close> equals \<open>x\<close>),
  fails in the arithmetic of the source. With all four fee parameters zero (\<open>m = 1.0\<close>,
  \<open>n = 0.0\<close>) and \<open>x = 2^53 + 3 = 9007199254740995\<close>, the product \<open>self.m * x\<close> converts
  \<open>x\<close> to the double \<open>9007199254740996.0\<close>; that float is not below \<open>x\<close>, so it is the
  inbound amount, the inverse returns it unchanged, and the test compares
  \<open>9007199254740996.0\<close> with \<open>9007199254740995\<close>.
\<close>

theorem round_trip_f64_counterexample:
  "valid_params 0 0 0 0 \<and> (0::int) \<le> 9007199254740995
   \<and> round_trip_test 0 0 0 0 9007199254740995 = Inr False"
  by (simp add: valid_params_def round_trip_test_def init_zero inbound_from_outbound_f64_def
      outbound_from_inbound_f64_def f_f64_big round_half_even_big del: as_float.simps)

text \<open>
  C1, amended. For all valid fee parameters and every integer outbound amount \<open>x\<close> with
  \<open>0 \<le> x \<le> 5 * 10^14\<close> (the test run of the source stays below \<open>10^11\<close>), evaluation in
  binary64 raises nothing and \<open>round(outbound_from_inbound(inbound_from_outbound(x)), 0)\<close>
  equals \<open>x\<close>.

  The proof follows the three paths of the code. If the forward floor returns the
  integer \<open>x\<close> itself, the inverse recomputes the same float, takes the identity branch
  and returns \<open>x\<close>. Otherwise the inbound amount is the float \<open>fx\<close>, within \<open>1/4\<close> of
  \<open>m * x + n\<close>. On the linear branch the inverse undoes it up to \<open>25/64\<close>; on the identity
  branch the failed test \<open>f(fx) > fx\<close> bounds \<open>m * (fx - x)\<close> by \<open>3/8\<close>. Both are below
  one half, so rounding gives \<open>x\<close>.
\<close>

theorem round_trip_f64:
  assumes "valid_params fee_rate_out base_out fee_rate_in base_in"
    and "0 \<le> amt_out" and "amt_out \<le> 500000000000000"
  shows "round_trip_test fee_rate_out base_out fee_rate_in base_in amt_out = Inr True"
proof -
  obtain fee where init: "FeeStructure_init_f64 fee_rate_out base_out fee_rate_in base_in = Inr fee"
    and M: "97 / 100 \<le> m fee" "m fee \<le> 103 / 100" and N: "\<bar>n fee\<bar> \<le> 4100"
    using FeeStructure_init_f64_bounds [OF assms(1)] by blast
  define x :: rat where "x = of_int amt_out"
  define a where "a = fl x"
  define fx where "fx = fl (fl (m fee * a) + n fee)"
  have x: "0 \<le> x" "x \<le> 500000000000000"
    using assms(2,3) unfolding x_def by (simp, metis of_int_le_iff of_int_numeral)
  have conv: "as_float (PyInt amt_out) = Inr a" and ea: "\<bar>a - x\<bar> \<le> 1 / 16"
    unfolding a_def x_def by (rule as_float_amount [OF assms(2,3)])+
  have a_small: "\<bar>a\<bar> \<le> 520000000000000"
    using ea x by linarith
  have fwd: "f_f64 fee (PyInt amt_out) = Inr fx"
    and efx0: "\<bar>fx - (m fee * a + n fee)\<bar> \<le> 1 / 8"
    unfolding fx_def by (rule f_f64_ok [OF M N conv a_small])+
  have "\<bar>m fee\<bar> \<le> 103 / 100" using M by linarith
  then have "\<bar>m fee * (a - x)\<bar> \<le> (103 / 100) * (1 / 16)"
    using ea by (rule abs_mult_bound)
  moreover have "m fee * (a - x) = m fee * a - m fee * x"
    by (simp add: algebra_simps)
  ultimately have efx: "\<bar>fx - (m fee * x + n fee)\<bar> \<le> 1 / 4"
    using efx0 by linarith
  have "\<bar>m fee * x\<bar> \<le> (103 / 100) * 500000000000000"
    using \<open>\<bar>m fee\<bar> \<le> 103 / 100\<close> x by (intro abs_mult_bound) simp_all
  then have fx_small: "\<bar>fx\<bar> \<le> 520000000000000"
    using efx N by linarith
  have inb: "inbound_from_outbound_f64 fee (PyInt amt_out) =
               Inr (if x > fx then PyInt amt_out else PyFloat fx)"
    by (simp add: inbound_from_outbound_f64_def fwd x_def del: as_float.simps)
  show ?thesis
  proof (cases "x > fx")
    case True
    then have "outbound_from_inbound_f64 fee (PyInt amt_out) = Inr (PyInt amt_out)"
      by (simp add: outbound_from_inbound_f64_def fwd x_def del: as_float.simps)
    with True show ?thesis
      by (simp add: round_trip_test_def init inb)
  next
    case False
    note flo = False
    define F2 where "F2 = fl (fl (m fee * fx) + n fee)"
    have cf: "as_float (PyFloat fx) = Inr fx" by simp
    have bwd: "f_f64 fee (PyFloat fx) = Inr F2"
      and eF2: "\<bar>F2 - (m fee * fx + n fee)\<bar> \<le> 1 / 8"
      unfolding F2_def by (rule f_f64_ok [OF M N cf fx_small])+
    show ?thesis
    proof (cases "F2 > fx")
      case True
      note lin = True
      define d where "d = fl (fx - n fee)"
      define r where "r = fl (d / m fee)"
      have s1: "\<bar>fx - n fee\<bar> \<le> 562949953421312"
        using fx_small N by linarith
      have e1: "fsub fx (n fee) = Inr d"
        unfolding fsub_def d_def by (rule float_result_49 [OF s1])
      have b1: "\<bar>d - (fx - n fee)\<bar> \<le> 1 / 16"
        unfolding d_def by (rule fl_error_49 [OF s1])
      have d_small: "\<bar>d\<bar> \<le> 520000000005000"
        using b1 fx_small N by linarith
      have mpos: "0 < m fee" using M by linarith
      have dm: "\<bar>d - m fee * x\<bar> \<le> 5 / 16"
        using b1 efx by linarith
      have "\<bar>d / m fee\<bar> = \<bar>d\<bar> / m fee"
        using mpos by simp
      also have "\<dots> \<le> 520000000005000 / (97 / 100)"
        using d_small M(1) by (intro frac_le) simp_all
      also have "\<dots> \<le> 562949953421312"
        by simp
      finally have s2: "\<bar>d / m fee\<bar> \<le> 562949953421312" .
      have e2: "fdiv d (m fee) = Inr r"
        using mpos float_result_49 [OF s2] by (simp add: fdiv_def r_def)
      have b2: "\<bar>r - d / m fee\<bar> \<le> 1 / 16"
        unfolding r_def by (rule fl_error_49 [OF s2])
      have "d / m fee - x = (d - m fee * x) / m fee"
        using mpos by (simp add: field_simps)
      then have "\<bar>d / m fee - x\<bar> = \<bar>d - m fee * x\<bar> / m fee"
        using mpos by simp
      also have "\<dots> \<le> (5 / 16) / (97 / 100)"
        using dm M(1) by (intro frac_le) simp_all
      also have "\<dots> \<le> 21 / 64"
        by simp
      finally have "\<bar>d / m fee - x\<bar> \<le> 21 / 64" .
      with b2 have "\<bar>r - of_int amt_out\<bar> < 1 / 2"
        unfolding x_def by linarith
      then have rnd: "round_half_even r = amt_out"
        by (rule round_half_even_near)
      have "outbound_from_inbound_f64 fee (PyFloat fx) = Inr (PyFloat r)"
        using lin by (simp add: outbound_from_inbound_f64_def bwd e1 e2)
      with flo rnd show ?thesis
        by (simp add: round_trip_test_def init inb)
    next
      case False
      note idt = False
      define dl where "dl = fx - x"
      have "0 \<le> dl" using flo by (simp add: dl_def)
      have prod: "m fee * fx = m fee * x + m fee * dl"
        by (simp add: dl_def algebra_simps)
      have "m fee * dl \<le> 3 / 8"
        using eF2 idt efx prod unfolding dl_def by linarith
      moreover have "(97 / 100) * dl \<le> m fee * dl"
        using M(1) \<open>0 \<le> dl\<close> by (rule mult_right_mono)
      ultimately have "\<bar>dl\<bar> < 1 / 2"
        using \<open>0 \<le> dl\<close> by linarith
      then have "\<bar>fx - of_int amt_out\<bar> < 1 / 2"
        by (simp add: dl_def x_def)
      then have rnd: "round_half_even fx = amt_out"
        by (rule round_half_even_near)
      have "outbound_from_inbound_f64 fee (PyFloat fx) = Inr (PyFloat fx)"
        using idt by (simp add: outbound_from_inbound_f64_def bwd)
      with flo rnd show ?thesis
        by (simp add: round_trip_test_def init inb)
    qed
  qed
qed

theorem round_trip_f64_witness:
  "valid_params 1000 1 0 0 \<and> (0::int) \<le> 1000000 \<and> (1000000::int) \<le> 500000000000000
   \<and> round_trip_test 1000 1 0 0 1000000 = Inr True"
  using round_trip_f64 [of 1000 1 0 0 1000000]
  by (simp add: valid_params_def)

subsection \<open>The inverse bound in binary64\<close>

text \<open>
  The bound of C7 is a property of the exact arithmetic. In binary64 it holds only up to
  rounding, also for valid parameters: with \<open>(0, 13, -9986, 0)\<close> and the inbound amount
  \<open>5668301526374245 / 2^42\<close> (about \<open>1288.81\<close>), the uncapped value is one unit in the
  last place above the amount, the linear branch is taken, and the quotient rounds to
  that same float above the amount. The roundings involved, one by one:
\<close>

lemma fl_ex_rate: "fl (- 9986 / 1000000) = - (5756537072501987 / 576460752303423488)"
  by code_simp

lemma fl_ex_m: "fl (1 + - (5756537072501987 / 576460752303423488)) = 2229313340745787 / 2251799813685248"
  by code_simp

lemma fl_ex_n: "fl (13 * (2229313340745787 / 2251799813685248)) = 113207318084747 / 8796093022208"
  by code_simp

lemma fl_ex_n_fixed: "fl (113207318084747 / 8796093022208) = 113207318084747 / 8796093022208"
  by code_simp

lemma fl_13: "fl 13 = 13"
  by code_simp

lemma fl_ex_prod: "fl (2229313340745787 / 2251799813685248 * (5668301526374245 / 4398046511104)) = 175365558354121 / 137438953472"
  by code_simp

lemma fl_ex_f: "fl (175365558354121 / 137438953472 + 113207318084747 / 8796093022208) = 2834150763187123 / 2199023255552"
  by code_simp

lemma fl_ex_diff: "fl (5668301526374245 / 4398046511104 - 113207318084747 / 8796093022208) = 175365558354121 / 137438953472"
  by code_simp

lemma fl_ex_quot: "fl (175365558354121 / 137438953472 / (2229313340745787 / 2251799813685248)) = 2834150763187123 / 2199023255552"
  by code_simp


lemma int_truediv_ex: "int_truediv (- 9986) UNIT_M = Inr (- (5756537072501987 / 576460752303423488))"
  using fl_ex_rate by (simp add: int_truediv_def UNIT_M_def finite64_small)

lemma int_truediv_0: "int_truediv 0 UNIT_M = Inr 0"
  by (simp add: int_truediv_def UNIT_M_def fl_0 finite64_small)

lemma fadd_ex_m: "fadd 1 (- (5756537072501987 / 576460752303423488)) = Inr (2229313340745787 / 2251799813685248)"
  unfolding fadd_def float_result_def fl_ex_m by (simp add: finite64_small)

lemma fmul_ex_n: "fmul 13 (2229313340745787 / 2251799813685248) = Inr (113207318084747 / 8796093022208)"
  unfolding fmul_def float_result_def fl_ex_n by (simp add: finite64_small)

lemma fadd_ex_n: "fadd (113207318084747 / 8796093022208) 0 = Inr (113207318084747 / 8796093022208)"
  unfolding fadd_def float_result_def add_0_right fl_ex_n_fixed by (simp add: finite64_small)

lemma as_float_13: "as_float (PyInt 13) = Inr 13"
  using fl_13 by (simp add: finite64_small)

lemma as_float_0: "as_float (PyInt 0) = Inr 0"
  by (simp add: fl_0 finite64_small)

lemma fmul_ex_0: "fmul 0 (2229313340745787 / 2251799813685248) = Inr 0"
  by (simp add: fmul_def float_result_def fl_0 finite64_small)

lemma fadd_1_0: "fadd 1 0 = Inr 1"
  by (simp add: fadd_def float_result_def fl_1 finite64_small)

lemma init_ex:
  "FeeStructure_init_f64 0 13 (- 9986) 0 =
     Inr \<lparr> m = 2229313340745787 / 2251799813685248, n = 113207318084747 / 8796093022208 \<rparr>"
  by (simp only: FeeStructure_init_f64_def int_truediv_0 int_truediv_ex fadd_ex_m fmul_ex_n fadd_ex_n as_float_13 as_float_0 fmul_ex_0 fadd_1_0 bnd_Inr)

lemma fmul_ex_prod:
  "fmul (2229313340745787 / 2251799813685248) (5668301526374245 / 4398046511104) =
     Inr (175365558354121 / 137438953472)"
  unfolding fmul_def float_result_def fl_ex_prod by (simp add: finite64_small)

lemma fadd_ex_f:
  "fadd (175365558354121 / 137438953472) (113207318084747 / 8796093022208) =
     Inr (2834150763187123 / 2199023255552)"
  unfolding fadd_def float_result_def fl_ex_f by (simp add: finite64_small)

lemma fsub_ex_diff:
  "fsub (5668301526374245 / 4398046511104) (113207318084747 / 8796093022208) =
     Inr (175365558354121 / 137438953472)"
  unfolding fsub_def float_result_def fl_ex_diff by (simp add: finite64_small)

lemma fdiv_ex_quot:
  "fdiv (175365558354121 / 137438953472) (2229313340745787 / 2251799813685248) =
     Inr (2834150763187123 / 2199023255552)"
  unfolding fdiv_def float_result_def fl_ex_quot by (simp add: finite64_small)

lemma f_f64_ex:
  "f_f64 \<lparr> m = 2229313340745787 / 2251799813685248, n = 113207318084747 / 8796093022208 \<rparr>
     (PyFloat (5668301526374245 / 4398046511104)) = Inr (2834150763187123 / 2199023255552)"
  by (simp only: f_f64_def as_float.simps bnd_Inr FeeStructure.select_convs fmul_ex_prod fadd_ex_f)

lemma ex_above: "(5668301526374245 / 4398046511104 :: rat) < 2834150763187123 / 2199023255552"
  by simp

lemma outbound_f64_ex:
  "outbound_from_inbound_f64 \<lparr> m = 2229313340745787 / 2251799813685248, n = 113207318084747 / 8796093022208 \<rparr>
     (PyFloat (5668301526374245 / 4398046511104)) = Inr (PyFloat (2834150763187123 / 2199023255552))"
  by (simp only: outbound_from_inbound_f64_def f_f64_ex bnd_Inr val.simps as_float.simps
      FeeStructure.select_convs fsub_ex_diff fdiv_ex_quot ex_above if_True)

lemma outbound_f64_exceeds:
  "valid_params 0 13 (- 9986) 0
   \<and> bnd (FeeStructure_init_f64 0 13 (- 9986) 0)
         (\<lambda>fee. outbound_from_inbound_f64 fee (PyFloat (5668301526374245 / 4398046511104)))
       = Inr (PyFloat (2834150763187123 / 2199023255552))
   \<and> (5668301526374245 / 4398046511104 :: rat) < 2834150763187123 / 2199023255552"
  by (simp add: valid_params_def init_ex outbound_f64_ex)

end
